theory Spec2Isabelle
  imports Complex_Main "HOL-Library.Sublist"
begin

section \<open>The DuCTT learning controller: data model\<close>

text \<open>
  A shallow embedding of \<^verbatim>\<open>DuCTTLearningController.cpp\<close>. A C++ \<^verbatim>\<open>double\<close> is read as
  a real number, an \<^verbatim>\<open>int\<close> counter as an integer, a vector as a list. An access that C++
  leaves undefined (an index past the end, a null pointer, an array cell never written)
  is a value of \<open>error\<close>, as is the exception of \<^verbatim>\<open>onStep\<close> and a failed \<^verbatim>\<open>assert\<close>.
  Calls into the simulation (actuators, prismatic joints, the learning adapter) are
  recorded, in order, as a list of \<open>command\<close>s. Left out: console output, the reading of
  the learning configuration, and the locals of \<^verbatim>\<open>onStep\<close> that nothing reads (the two
  tetra centres, \<^verbatim>\<open>tilting\<close>, \<^verbatim>\<open>distance\<close>).
\<close>

definition M_PI :: real where
  "M_PI = 3.14159265358979323846"

definition N_PARAMS :: nat where
  "N_PARAMS = 4"

datatype error = InvalidArgument | AssertionFailed | OutOfRange | NullPointer | Uninitialised

text \<open>Sequencing of fallible steps: the first failure ends the computation.\<close>

definition bindE :: "error + 'a \<Rightarrow> ('a \<Rightarrow> error + 'b) \<Rightarrow> error + 'b" where
  "bindE m f = (case m of Inl e \<Rightarrow> Inl e | Inr v \<Rightarrow> f v)"

fun sequenceE :: "(error + 'a) list \<Rightarrow> error + 'a list" where
  "sequenceE [] = Inr []"
| "sequenceE (m # ms) =
     (case m of
        Inl e \<Rightarrow> Inl e
      | Inr v \<Rightarrow> (case sequenceE ms of Inl e \<Rightarrow> Inl e | Inr vs \<Rightarrow> Inr (v # vs)))"

text \<open>
  \<^verbatim>\<open>v[i]\<close> on a vector or array. \<open>elemI\<close> and \<open>updI\<close> take an index that the source
  computes by a subtraction in \<^verbatim>\<open>size_t\<close>: a negative result wraps to an index far
  past the end.
\<close>

definition elem :: "'a list \<Rightarrow> nat \<Rightarrow> error + 'a" where
  "elem xs i = (if i < length xs then Inr (xs ! i) else Inl OutOfRange)"

definition elemI :: "'a list \<Rightarrow> int \<Rightarrow> error + 'a" where
  "elemI xs i = (if i < 0 then Inl OutOfRange else elem xs (nat i))"

definition upd :: "'a list \<Rightarrow> nat \<Rightarrow> 'a \<Rightarrow> error + 'a list" where
  "upd xs i v = (if i < length xs then Inr (xs[i := v]) else Inl OutOfRange)"

definition updI :: "'a list \<Rightarrow> int \<Rightarrow> 'a \<Rightarrow> error + 'a list" where
  "updI xs i v = (if i < 0 then Inl OutOfRange else upd xs (nat i) v)"

text \<open>A cell of a \<^verbatim>\<open>new double[n]\<close> array holds no value until it is assigned.\<close>

definition cell :: "real option list \<Rightarrow> int \<Rightarrow> error + real" where
  "cell arr i =
     bindE (elemI arr i) (\<lambda>v. case v of None \<Rightarrow> Inl Uninitialised | Some r \<Rightarrow> Inr r)"

record vec3 =
  vec_x :: real
  vec_y :: real
  vec_z :: real

text \<open>\<^verbatim>\<open>tgSpringCableActuator::SpringCableActuatorHistory\<close>, the two sequences the controller reads.\<close>

record SpringCableActuatorHistory =
  tensionHistory :: "real list"
  restLengths :: "real list"

datatype prismatic = BottomPrismatic | TopPrismatic

text \<open>
  What one call of the controller reads from its subject. A muscle is named by its
  position in \<^verbatim>\<open>getAllMuscles()\<close>; \<open>find_string_cluster subject k\<close> are the muscles
  that \<^verbatim>\<open>find<tgBasicActuator>("string cluster" + k)\<close> returns.
\<close>

record DuCTTRobotModel =
  getAllMuscles :: "SpringCableActuatorHistory list"
  find_string_cluster :: "nat \<Rightarrow> nat list"
  bottomMinLength :: real
  bottomActualLength :: real
  topMinLength :: real
  topActualLength :: real
  topTouchSensors :: "bool list"
  bottomTouchSensors :: "bool list"
  getCOM :: vec3

text \<open>The calls the controller makes on its subject and on the learning adapter.\<close>

datatype command =
    SetControlInput nat real real
  | ImpedanceControl nat real real real
  | MuscleMoveMotors nat real
  | PrismSetPreferredLength prismatic real
  | PrismMoveMotors prismatic real
  | EndEpisode bool "real list"

text \<open>
  What \<^verbatim>\<open>readManualParams\<close> takes from outside the program: the contents of a file by
  name (\<open>None\<close> when it cannot be opened), \<^verbatim>\<open>atof\<close>, and the value of the k-th call
  of \<^verbatim>\<open>rand()\<close>.
\<close>

record environment =
  ifstream :: "string \<Rightarrow> string option"
  atof :: "string \<Rightarrow> real"
  rand :: "nat \<Rightarrow> nat"

text \<open>
  The members of the class, with the types their uses in the source show (the counters
  are integers, without the 32-bit bound). \<open>maxCount\<close> is the function-local
  \<^verbatim>\<open>static const\<close> of \<^verbatim>\<open>isLocked\<close>: \<open>None\<close> until the first call initialises it, and
  never assigned again. It is kept with the controller here; the program has one for
  the whole process.
\<close>

record DuCTTLearningController =
  m_initialLength :: real
  m_usingManualParams :: bool
  m_manualParamFile :: string
  m_axis :: int
  m_bUseNeuro :: bool
  m_totalTime :: real
  nClusters :: nat
  musclesPerCluster :: nat
  nPrisms :: nat
  nActions :: nat
  m_bBadRun :: bool
  m_bIgnoreTouchSensors :: bool
  m_bRecordedStart :: bool
  bottomCounter :: int
  topCounter :: int
  m_dHistorisisSeconds :: real
  m_bBottomPaused :: bool
  m_bTopPaused :: bool
  prisms :: "prismatic option list"
  clusters :: "nat option list list"
  amplitude :: "real option list"
  angularFrequency :: "real option list"
  phaseChange :: "real option list"
  dcOffset :: "real option list"
  m_actions :: "real list list"
  initPosition :: vec3
  maxCount :: "real option"

text \<open>
  The constructor. Its initialiser list does not mention \<^verbatim>\<open>initPosition\<close>, which holds
  an indeterminate value until \<^verbatim>\<open>onStep\<close> records the start: that value is the argument
  \<open>indeterminatePosition\<close>. \<open>staticMaxCount\<close> is the state of the static of
  \<^verbatim>\<open>isLocked\<close> when the controller is made: \<open>None\<close> in a process where \<^verbatim>\<open>isLocked\<close>
  has not run yet, the value an earlier controller left otherwise. The four arrays are
  allocated by \<^verbatim>\<open>initializeSineWaves\<close>.
\<close>

definition new_DuCTTLearningController ::
  "real \<Rightarrow> bool \<Rightarrow> string \<Rightarrow> int \<Rightarrow> bool \<Rightarrow> vec3 \<Rightarrow> real option \<Rightarrow>
   DuCTTLearningController" where
  "new_DuCTTLearningController initialLength useManualParams manParamFile axis neuro
       indeterminatePosition staticMaxCount =
     \<lparr> m_initialLength = initialLength,
       m_usingManualParams = useManualParams,
       m_manualParamFile = manParamFile,
       m_axis = axis,
       m_bUseNeuro = neuro,
       m_totalTime = 0.0,
       nClusters = 2,
       musclesPerCluster = 4,
       nPrisms = 2,
       nActions = 2 + 2,
       m_bBadRun = False,
       m_bIgnoreTouchSensors = True,
       m_bRecordedStart = False,
       bottomCounter = 0,
       topCounter = 0,
       m_dHistorisisSeconds = 0.5,
       m_bBottomPaused = False,
       m_bTopPaused = False,
       prisms = replicate 2 None,
       clusters = replicate 2 (replicate 4 None),
       amplitude = [],
       angularFrequency = [],
       phaseChange = [],
       dcOffset = [],
       m_actions = [],
       initPosition = indeterminatePosition,
       maxCount = staticMaxCount \<rparr>"

section \<open>Reading manual parameters\<close>

text \<open>
  \<^verbatim>\<open>std::getline(stream, str, delim)\<close>: on a stream that is not good it sets the fail
  bit and leaves \<open>str\<close> alone; otherwise it moves characters into \<open>str\<close> up to the
  delimiter (extracted, not stored) or the end of the buffer (eof bit), and sets the fail
  bit when it extracted nothing.
\<close>

record istream =
  buffer :: string
  eofbit :: bool
  failbit :: bool

definition open_stream :: "string \<Rightarrow> istream" where
  "open_stream s = \<lparr> buffer = s, eofbit = False, failbit = False \<rparr>"

fun extract_until :: "char \<Rightarrow> string \<Rightarrow> string \<times> string \<times> bool" where
  "extract_until delim [] = ([], [], False)"
| "extract_until delim (ch # rest) =
     (if ch = delim then ([], rest, True)
      else (case extract_until delim rest of (str, rest', found) \<Rightarrow> (ch # str, rest', found)))"

definition getline :: "istream \<Rightarrow> string \<Rightarrow> char \<Rightarrow> istream \<times> string" where
  "getline strm str delim =
     (if eofbit strm \<or> failbit strm then (strm\<lparr> failbit := True \<rparr>, str)
      else (case extract_until delim (buffer strm) of
              (str', rest, found) \<Rightarrow>
                (\<lparr> buffer = rest, eofbit = \<not> found, failbit = (\<not> found \<and> str' = []) \<rparr>, str')))"

text \<open>\<^verbatim>\<open>for (int i=0; i<lineNumber; i++) getline(infile, line);\<close>\<close>

fun grabLine :: "nat \<Rightarrow> istream \<Rightarrow> string \<Rightarrow> string" where
  "grabLine 0 infile line = line"
| "grabLine (Suc n) infile line =
     (case getline infile line (CHR 0x0A) of (infile', line') \<Rightarrow> grabLine n infile' line')"

text \<open>
  \<^verbatim>\<open>while (getline(lineStream,cell,',') && iCell <= numParams) { result[iCell] = atof(cell); iCell++; }\<close>
  The measure of the loop: what is left of the buffer, and whether the stream is still good.
\<close>

definition stream_left :: "istream \<Rightarrow> nat" where
  "stream_left strm =
     (if eofbit strm \<or> failbit strm then 0 else Suc (length (buffer strm)))"

function splitLine ::
  "(string \<Rightarrow> real) \<Rightarrow> int \<Rightarrow> istream \<Rightarrow> string \<Rightarrow> int \<Rightarrow> real list \<Rightarrow> error + real list" where
  "splitLine atof_fn numParams lineStream cellStr iCell result =
     (case getline lineStream cellStr (CHR '','') of
        (lineStream', cellStr') \<Rightarrow>
          (if \<not> failbit lineStream' \<and> iCell \<le> numParams then
             (case updI result iCell (atof_fn cellStr') of
                Inl e \<Rightarrow> Inl e
              | Inr result' \<Rightarrow> splitLine atof_fn numParams lineStream' cellStr' (iCell + 1) result')
           else Inr result))"
  by pat_completeness auto

lemma extract_until_found:
  "extract_until delim b = (s, rest, True) \<Longrightarrow> length rest < length b"
  by (induction b arbitrary: s) (auto split: if_splits prod.splits)

lemma getline_progress:
  "getline strm str delim = (strm', str') \<Longrightarrow> \<not> failbit strm' \<Longrightarrow>
   stream_left strm' < stream_left strm"
  by (auto simp: getline_def stream_left_def split: if_splits prod.splits
      dest: extract_until_found)

termination splitLine
  by (relation "measure (\<lambda>(a, n, strm, s, i, r). stream_left strm)")
    (auto dest: getline_progress[OF sym])

text \<open>
  \<^verbatim>\<open>for (i...) { seed = ((double)(rand() % 100)) / 100; result[i] += (0.01 * seed) - 0.005; }\<close>
\<close>

fun tweak :: "(nat \<Rightarrow> nat) \<Rightarrow> nat \<Rightarrow> real list \<Rightarrow> real list" where
  "tweak rnd i [] = []"
| "tweak rnd i (r # rs) =
     (let seed = real (rnd i mod 100) / 100
      in (r + ((0.01 * seed) - 0.005)) # tweak rnd (Suc i) rs)"

definition readManualParams ::
  "DuCTTLearningController \<Rightarrow> environment \<Rightarrow> int \<Rightarrow> string \<Rightarrow> error + real list" where
  "readManualParams c env lineNumber filename =
     (if \<not> lineNumber > 0 then Inl AssertionFailed
      else
        let numParams = int (nActions c * N_PARAMS + 2);
            result = replicate (nat numParams) (1.0 :: real);
            line = (case ifstream env filename of
                      None \<Rightarrow> []
                    | Some contents \<Rightarrow> grabLine (nat lineNumber) (open_stream contents) [])
        in bindE (splitLine (atof env) numParams (open_stream line) [] 0 result)
             (\<lambda>result. Inr (tweak (rand env) 0 result)))"

section \<open>Decoding the parameter vector\<close>

definition mins :: "real list" where
  "mins = [0, 0.3, -1 * M_PI, 0]"

definition maxes :: "real list" where
  "maxes = [40, 20, M_PI, 40]"

definition ranges :: "real list" where
  "ranges = [maxes ! 0 - mins ! 0, maxes ! 1 - mins ! 1, maxes ! 2 - mins ! 2, maxes ! 3 - mins ! 3]"

text \<open>The inner loop: \<^verbatim>\<open>newActions[i][j] = params[i*N_PARAMS + j]*(ranges[j])+mins[j]\<close>.\<close>

definition scaleChannel :: "real list \<Rightarrow> nat \<Rightarrow> error + real list" where
  "scaleChannel params i =
     sequenceE (map (\<lambda>j. bindE (elem params (i * N_PARAMS + j))
                            (\<lambda>p. Inr (p * (ranges ! j) + mins ! j)))
                    [0..<N_PARAMS])"

text \<open>
  \<^verbatim>\<open>transformActions\<close>: returns \<^verbatim>\<open>newActions\<close> and the controller, whose two flags
  it may have assigned. \<open>touchOffset\<close> is computed from \<^verbatim>\<open>actions[0].size()\<close>, also when
  the parameters come from the manual file.
\<close>

definition transformActions ::
  "DuCTTLearningController \<Rightarrow> environment \<Rightarrow> real list list \<Rightarrow>
   error + (real list list \<times> DuCTTLearningController)" where
  "transformActions c env actions =
     bindE (if m_usingManualParams c
            then readManualParams c env 1 (m_manualParamFile c)
            else elem actions 0) (\<lambda>params.
     bindE (sequenceE (map (scaleChannel params) [0..<nActions c])) (\<lambda>newActions.
     bindE (if length params mod 4 \<noteq> 0 then
              bindE (elem actions 0) (\<lambda>actions0.
              let touchOffset = int (length actions0) - int (nActions c * N_PARAMS)
              in bindE (elemI params (int (length params) - touchOffset)) (\<lambda>touchParam.
                 Inr (c\<lparr> m_bIgnoreTouchSensors := touchParam < 0.5 \<rparr>)))
            else Inr c) (\<lambda>c1.
     bindE (if length params mod 4 \<noteq> 0 then
              let minHistorisis = 0.0;
                  maxHistorisis = 2.0;
                  historisisRange = maxHistorisis - minHistorisis;
                  offset = int (length params) - int (nActions c1 * N_PARAMS + 1)
              in bindE (elemI params (int (length params) - offset)) (\<lambda>p.
                 Inr (c1\<lparr> m_dHistorisisSeconds := p * historisisRange + minHistorisis \<rparr>))
            else Inr c1) (\<lambda>c2.
     Inr (newActions, c2)))))"

section \<open>Binding channels to actuators\<close>

definition initializeSineWaves :: "DuCTTLearningController \<Rightarrow> DuCTTLearningController" where
  "initializeSineWaves c =
     c\<lparr> amplitude := replicate (nActions c) None,
        angularFrequency := replicate (nActions c) None,
        phaseChange := replicate (nActions c) None,
        dcOffset := replicate (nActions c) None \<rparr>"

text \<open>
  The body shared by the two loops of \<^verbatim>\<open>applyActions\<close>:
  \<^verbatim>\<open>amplitude[idx] = actions[idx][0]; angularFrequency[idx] = actions[idx][1]; ...\<close>
\<close>

definition setChannel ::
  "real list list \<Rightarrow> int \<Rightarrow> DuCTTLearningController \<Rightarrow> error + DuCTTLearningController" where
  "setChannel actions idx c =
     bindE (elemI actions idx) (\<lambda>a.
     bindE (elem a 0) (\<lambda>a0. bindE (updI (amplitude c) idx (Some a0)) (\<lambda>amp.
     bindE (elem a 1) (\<lambda>a1. bindE (updI (angularFrequency c) idx (Some a1)) (\<lambda>freq.
     bindE (elem a 2) (\<lambda>a2. bindE (updI (phaseChange c) idx (Some a2)) (\<lambda>ph.
     bindE (elem a 3) (\<lambda>a3. bindE (updI (dcOffset c) idx (Some a3)) (\<lambda>dc.
     Inr (c\<lparr> amplitude := amp, angularFrequency := freq, phaseChange := ph,
             dcOffset := dc \<rparr>))))))))))"

fun setChannels ::
  "real list list \<Rightarrow> int list \<Rightarrow> DuCTTLearningController \<Rightarrow> error + DuCTTLearningController" where
  "setChannels actions [] c = Inr c"
| "setChannels actions (idx # rest) c =
     (case setChannel actions idx c of
        Inl e \<Rightarrow> Inl e
      | Inr c' \<Rightarrow> setChannels actions rest c')"

text \<open>The index of a joint's channel: \<^verbatim>\<open>size_t idx = prism + clusters.size()-1;\<close>\<close>

definition prismIdx :: "DuCTTLearningController \<Rightarrow> nat \<Rightarrow> int" where
  "prismIdx c prism = int prism + int (length (clusters c)) - 1"

definition applyActions ::
  "DuCTTLearningController \<Rightarrow> real list list \<Rightarrow> error + DuCTTLearningController" where
  "applyActions c actions =
     (if length actions \<noteq> nActions c then Inl AssertionFailed
      else
        bindE (setChannels actions (map int [0..<length (clusters c)]) c) (\<lambda>c1.
        setChannels actions (map (prismIdx c1) [0..<length (prisms c1)]) c1))"

text \<open>\<^verbatim>\<open>populateClusters\<close>: the muscles of each cluster by tag, then the two joints.\<close>

fun populateClusterLoop ::
  "DuCTTRobotModel \<Rightarrow> nat list \<Rightarrow> nat option list list \<Rightarrow> error + nat option list list" where
  "populateClusterLoop subject [] cls = Inr cls"
| "populateClusterLoop subject (cluster # rest) cls =
     (case upd cls cluster (map Some (find_string_cluster subject (cluster + 1))) of
        Inl e \<Rightarrow> Inl e
      | Inr cls' \<Rightarrow> populateClusterLoop subject rest cls')"

fun populatePrismLoop ::
  "nat list \<Rightarrow> prismatic option list \<Rightarrow> error + prismatic option list" where
  "populatePrismLoop [] ps = Inr ps"
| "populatePrismLoop (prism # rest) ps =
     (case (if prism = 0 then upd ps prism (Some BottomPrismatic)
            else if prism = 1 then upd ps prism (Some TopPrismatic)
            else Inr ps) of
        Inl e \<Rightarrow> Inl e
      | Inr ps' \<Rightarrow> populatePrismLoop rest ps')"

definition populateClusters ::
  "DuCTTLearningController \<Rightarrow> DuCTTRobotModel \<Rightarrow> error + DuCTTLearningController" where
  "populateClusters c subject =
     bindE (populateClusterLoop subject [0..<nClusters c] (clusters c)) (\<lambda>cls.
     bindE (populatePrismLoop [0..<nPrisms c] (prisms c)) (\<lambda>ps.
     Inr (c\<lparr> clusters := cls, prisms := ps \<rparr>)))"

section \<open>The lock state machine\<close>

text \<open>
  \<^verbatim>\<open>shouldPause\<close>: starts \<^verbatim>\<open>true\<close> and is cleared by any sensor that is not touching.
\<close>

definition shouldPause :: "bool list \<Rightarrow> bool" where
  "shouldPause touchSensors =
     fold (\<lambda>isTouching sp. if \<not> isTouching then False else sp) touchSensors True"

definition isLocked ::
  "DuCTTLearningController \<Rightarrow> DuCTTRobotModel \<Rightarrow> bool \<Rightarrow> bool \<times> DuCTTLearningController" where
  "isLocked c0 subject isTop =
     (let mc = (case maxCount c0 of
                  None \<Rightarrow> m_dHistorisisSeconds c0 * 1000
                | Some v \<Rightarrow> v);
          c1 = c0\<lparr> maxCount := Some mc \<rparr>;
          sPause = (if isTop then shouldPause (topTouchSensors subject)
                    else shouldPause (bottomTouchSensors subject));
          sUnPause = (if isTop then shouldPause (bottomTouchSensors subject)
                      else shouldPause (topTouchSensors subject));
          c2 = (if isTop then
                  (if (sPause \<and> \<not> m_bTopPaused c1) \<or> (sUnPause \<and> m_bTopPaused c1)
                   then c1\<lparr> topCounter := topCounter c1 + 1 \<rparr> else c1)
                else
                  (if (sPause \<and> \<not> m_bBottomPaused c1) \<or> (sUnPause \<and> m_bBottomPaused c1)
                   then c1\<lparr> bottomCounter := bottomCounter c1 + 1 \<rparr> else c1))
      in if sPause then
           (if isTop \<and> real_of_int (topCounter c2) > mc then
              (if \<not> m_bTopPaused c2
               then (True, c2\<lparr> m_bTopPaused := True, topCounter := 0 \<rparr>)
               else (False, c2\<lparr> m_bTopPaused := False, topCounter := 0 \<rparr>))
            else if \<not> isTop \<and> real_of_int (bottomCounter c2) > mc then
              (if \<not> m_bBottomPaused c2
               then (True, c2\<lparr> m_bBottomPaused := True, bottomCounter := 0 \<rparr>)
               else (False, c2\<lparr> m_bBottomPaused := False, bottomCounter := 0 \<rparr>))
            else (False, c2))
         else (False, c2))"

section \<open>Sine-wave actuation\<close>

text \<open>
  The value both loops compute:
  \<^verbatim>\<open>amplitude[i] * sin(angularFrequency[i] * m_totalTime + phase) + dcOffset[i]\<close>.
\<close>

definition sineWave :: "DuCTTLearningController \<Rightarrow> int \<Rightarrow> real \<Rightarrow> error + real" where
  "sineWave c idx phase =
     bindE (cell (amplitude c) idx) (\<lambda>a.
     bindE (cell (angularFrequency c) idx) (\<lambda>w.
     bindE (cell (dcOffset c) idx) (\<lambda>d.
     Inr (a * sin (w * m_totalTime c + phase) + d))))"

text \<open>The inner loop of \<^verbatim>\<open>setPreferredMuscleLengths\<close> over the muscles of one cluster.\<close>

definition clusterNodes ::
  "DuCTTLearningController \<Rightarrow> real \<Rightarrow> nat \<Rightarrow> real \<Rightarrow> error + command list" where
  "clusterNodes c dt cluster phase =
     sequenceE (map (\<lambda>node.
        bindE (elem (clusters c) cluster) (\<lambda>cl.
        bindE (elem cl node) (\<lambda>p.
        case p of
          None \<Rightarrow> Inl AssertionFailed
        | Some pMuscle \<Rightarrow>
            bindE (sineWave c (int cluster) phase) (\<lambda>newVelocity.
            Inr (ImpedanceControl pMuscle dt (m_initialLength c) newVelocity)))))
        [0..<musclesPerCluster c])"

fun clusterLoop ::
  "DuCTTLearningController \<Rightarrow> real \<Rightarrow> nat list \<Rightarrow> real \<Rightarrow> error + command list" where
  "clusterLoop c dt [] phase = Inr []"
| "clusterLoop c dt (cluster # rest) phase =
     (case clusterNodes c dt cluster phase of
        Inl e \<Rightarrow> Inl e
      | Inr cmds \<Rightarrow>
          (case cell (phaseChange c) (int cluster) of
             Inl e \<Rightarrow> Inl e
           | Inr pc \<Rightarrow>
               (case clusterLoop c dt rest (phase + pc) of
                  Inl e \<Rightarrow> Inl e
                | Inr cmds' \<Rightarrow> Inr (cmds @ cmds'))))"

definition setPreferredMuscleLengths ::
  "DuCTTLearningController \<Rightarrow> DuCTTRobotModel \<Rightarrow> real \<Rightarrow> error + command list" where
  "setPreferredMuscleLengths c subject dt = clusterLoop c dt [0..<nClusters c] 0"

text \<open>
  The loop of \<^verbatim>\<open>setPrismaticLengths\<close>. \<^verbatim>\<open>isLocked\<close> is called only when the touch
  sensors are not ignored (\<^verbatim>\<open>||\<close> short-circuits), and it changes the controller.
\<close>

fun prismLoop ::
  "DuCTTRobotModel \<Rightarrow> nat list \<Rightarrow> real \<Rightarrow> DuCTTLearningController \<Rightarrow>
   error + (DuCTTLearningController \<times> command list)" where
  "prismLoop subject [] phase c = Inr (c, [])"
| "prismLoop subject (prism # rest) phase c =
     (let idx = prismIdx c prism
      in case elem (prisms c) prism of
           Inl e \<Rightarrow> Inl e
         | Inr pPrism \<Rightarrow>
             (let isTop = (pPrism = Some TopPrismatic);
                  (apply, c1) = (if m_bIgnoreTouchSensors c then (True, c)
                                 else (case isLocked c subject isTop of
                                         (locked, c') \<Rightarrow> (\<not> locked, c')))
              in case (if apply then
                         bindE (sineWave c1 idx phase) (\<lambda>newLength.
                         case pPrism of
                           None \<Rightarrow> Inl NullPointer
                         | Some p \<Rightarrow> Inr [PrismSetPreferredLength p newLength])
                       else Inr []) of
                   Inl e \<Rightarrow> Inl e
                 | Inr cmds \<Rightarrow>
                     (case cell (phaseChange c1) idx of
                        Inl e \<Rightarrow> Inl e
                      | Inr pc \<Rightarrow>
                          (case prismLoop subject rest (phase + pc) c1 of
                             Inl e \<Rightarrow> Inl e
                           | Inr (c2, cmds') \<Rightarrow> Inr (c2, cmds @ cmds')))))"

definition setPrismaticLengths ::
  "DuCTTLearningController \<Rightarrow> DuCTTRobotModel \<Rightarrow> real \<Rightarrow>
   error + (DuCTTLearningController \<times> command list)" where
  "setPrismaticLengths c subject dt = prismLoop subject [0..<nPrisms c] 0 c"

definition moveMotors :: "DuCTTRobotModel \<Rightarrow> real \<Rightarrow> command list" where
  "moveMotors subject dt =
     map (\<lambda>i. MuscleMoveMotors i dt) [0..<length (getAllMuscles subject)]
     @ [PrismMoveMotors BottomPrismatic dt, PrismMoveMotors TopPrismatic dt]"

section \<open>Scoring an episode\<close>

definition displacement :: "DuCTTLearningController \<Rightarrow> DuCTTRobotModel \<Rightarrow> real" where
  "displacement c subject =
     (let finalPosition = getCOM subject;
          newX = vec_x finalPosition; newY = vec_y finalPosition; newZ = vec_z finalPosition;
          oldX = vec_x (initPosition c); oldY = vec_y (initPosition c);
          oldZ = vec_z (initPosition c);
          distanceMoved = sqrt ((newX - oldX) * (newX - oldX) +
                                (newY - oldY) * (newY - oldY) +
                                (newZ - oldZ) * (newZ - oldZ))
      in if m_axis c = 0 then \<bar>newX - oldX\<bar>
         else if m_axis c = 2 then \<bar>newZ - oldZ\<bar>
         else if m_axis c = 3 then distanceMoved
         else newY - oldY)"

text \<open>The inner loop of \<^verbatim>\<open>totalEnergySpent\<close> over one history, \<open>j\<close> from 1.\<close>

fun historyLoop :: "SpringCableActuatorHistory \<Rightarrow> nat list \<Rightarrow> real \<Rightarrow> error + real" where
  "historyLoop stringHist [] spent = Inr spent"
| "historyLoop stringHist (j # js) spent =
     (case elem (tensionHistory stringHist) (j - 1) of
        Inl e \<Rightarrow> Inl e
      | Inr previousTension \<Rightarrow>
     (case elem (restLengths stringHist) (j - 1) of
        Inl e \<Rightarrow> Inl e
      | Inr previousLength \<Rightarrow>
     (case elem (restLengths stringHist) j of
        Inl e \<Rightarrow> Inl e
      | Inr currentLength \<Rightarrow>
          (let motorSpeed = currentLength - previousLength;
               motorSpeed' = (if motorSpeed > 0 then 0 else motorSpeed);
               workDone = previousTension * motorSpeed'
           in historyLoop stringHist js (spent + workDone)))))"

fun stringsLoop :: "SpringCableActuatorHistory list \<Rightarrow> real \<Rightarrow> error + real" where
  "stringsLoop [] spent = Inr spent"
| "stringsLoop (stringHist # rest) spent =
     (case historyLoop stringHist [1..<length (tensionHistory stringHist)] spent of
        Inl e \<Rightarrow> Inl e
      | Inr spent' \<Rightarrow> stringsLoop rest spent')"

definition totalEnergySpent :: "DuCTTRobotModel \<Rightarrow> error + real" where
  "totalEnergySpent subject = stringsLoop (getAllMuscles subject) 0"

text \<open>
  \<^verbatim>\<open>onTeardown\<close>: the scores go to the adapter's \<^verbatim>\<open>endEpisode\<close>, the four arrays are
  deleted, and three members are assigned.
\<close>

definition onTeardown ::
  "DuCTTLearningController \<Rightarrow> DuCTTRobotModel \<Rightarrow>
   error + (DuCTTLearningController \<times> command list)" where
  "onTeardown c subject =
     (let distance = displacement c subject
      in bindE (totalEnergySpent subject) (\<lambda>energySpent.
         let scores = (if \<not> m_bBadRun c then [distance] else [-1]) @ [energySpent]
         in Inr (c\<lparr> amplitude := [], angularFrequency := [], phaseChange := [],
                    dcOffset := [], m_totalTime := 0.0, m_bRecordedStart := False,
                    m_bBadRun := False \<rparr>,
                 [EndEpisode (m_bUseNeuro c) scores])))"

section \<open>Setup and the per-tick entry point\<close>

text \<open>
  \<^verbatim>\<open>onSetup\<close>; \<open>adapterActions\<close> is what the learning adapter's \<^verbatim>\<open>step\<close> returns.
\<close>

definition onSetup ::
  "DuCTTLearningController \<Rightarrow> environment \<Rightarrow> DuCTTRobotModel \<Rightarrow> real list list \<Rightarrow>
   error + (DuCTTLearningController \<times> command list)" where
  "onSetup c env subject adapterActions =
     (let dt = 0.0001;
          cmds = map (\<lambda>i. SetControlInput i (m_initialLength c) dt)
                     [0..<length (getAllMuscles subject)]
                 @ [PrismSetPreferredLength BottomPrismatic (bottomMinLength subject),
                    PrismMoveMotors BottomPrismatic dt,
                    PrismSetPreferredLength TopPrismatic (topMinLength subject),
                    PrismMoveMotors TopPrismatic dt]
      in bindE (populateClusters c subject) (\<lambda>c1.
         let c2 = initializeSineWaves c1;
             c3 = c2\<lparr> m_actions := adapterActions \<rparr>
         in bindE (transformActions c3 env (m_actions c3)) (\<lambda>(newActions, c4).
            let c5 = c4\<lparr> m_actions := newActions \<rparr>
            in bindE (applyActions c5 (m_actions c5)) (\<lambda>c6. Inr (c6, cmds)))))"

text \<open>
  \<^verbatim>\<open>onStep\<close> returns the error raised (if any), the controller and the calls made on
  the subject up to that point: a C++ exception leaves the members as they were when it
  was thrown.
\<close>

definition onStep ::
  "DuCTTLearningController \<Rightarrow> DuCTTRobotModel \<Rightarrow> real \<Rightarrow>
   error option \<times> DuCTTLearningController \<times> command list" where
  "onStep c subject dt =
     (if dt \<le> 0.0 then (Some InvalidArgument, c, [])
      else
        let c1 = c\<lparr> m_totalTime := m_totalTime c + dt \<rparr>
        in if m_totalTime c1 < 3 then
             (case isLocked c1 subject False of
                (locked, c2) \<Rightarrow>
                  (None, c2,
                   if locked
                   then [PrismSetPreferredLength BottomPrismatic (bottomActualLength subject)]
                   else []))
           else
             let c2 = (if \<not> m_bRecordedStart c1
                       then c1\<lparr> initPosition := getCOM subject, m_bRecordedStart := True \<rparr>
                       else c1)
             in case setPreferredMuscleLengths c2 subject dt of
                  Inl e \<Rightarrow> (Some e, c2, [])
                | Inr cmds1 \<Rightarrow>
                    (case setPrismaticLengths c2 subject dt of
                       Inl e \<Rightarrow> (Some e, c2, cmds1)
                     | Inr (c3, cmds2) \<Rightarrow> (None, c3, cmds1 @ cmds2 @ moveMotors subject dt)))"

section \<open>Reference definitions and example inputs\<close>

text \<open>
  The energy metric as the specification words it: for each actuator and each pair of
  consecutive history samples, the previous tension times the negative part of the change
  of rest length.
\<close>

definition contractionWork :: "SpringCableActuatorHistory \<Rightarrow> nat \<Rightarrow> real" where
  "contractionWork h j =
     tensionHistory h ! (j - 1) * min 0 (restLengths h ! j - restLengths h ! (j - 1))"

definition energyMetric :: "SpringCableActuatorHistory list \<Rightarrow> real" where
  "energyMetric hs =
     (\<Sum>h\<leftarrow>hs. \<Sum>j\<leftarrow>[1..<length (tensionHistory h)]. contractionWork h j)"

text \<open>
  The two histories of an actuator are parallel sequences: the loop of
  \<^verbatim>\<open>totalEnergySpent\<close> runs over the tensions and indexes the rest lengths with them.
\<close>

definition parallelHistory :: "SpringCableActuatorHistory \<Rightarrow> bool" where
  "parallelHistory h = (length (tensionHistory h) \<le> length (restLengths h))"

definition origin :: vec3 where
  "origin = \<lparr> vec_x = 0, vec_y = 0, vec_z = 0 \<rparr>"

definition robot_example ::
  "SpringCableActuatorHistory list \<Rightarrow> bool list \<Rightarrow> bool list \<Rightarrow> vec3 \<Rightarrow> DuCTTRobotModel" where
  "robot_example hs bottomSensors topSensors com =
     \<lparr> getAllMuscles = hs,
       find_string_cluster = (\<lambda>k. if k = 1 then [0, 1, 2, 3] else [4, 5, 6, 7]),
       bottomMinLength = 1, bottomActualLength = 2, topMinLength = 1, topActualLength = 2,
       topTouchSensors = topSensors, bottomTouchSensors = bottomSensors, getCOM = com \<rparr>"

text \<open>
  The decoder as the specification words it: \<open>scaled = raw*(max-min)+min\<close>, with the
  ranges amplitude [0,40], frequency [0.3,20], phase [-M_PI,M_PI] and offset [0,40]; channel
  \<open>i\<close> reads the four slots from \<open>4*i\<close>.
\<close>

definition rescale :: "real \<Rightarrow> real \<Rightarrow> real \<Rightarrow> real" where
  "rescale lo hi raw = raw * (hi - lo) + lo"

definition decodedChannel :: "real list \<Rightarrow> nat \<Rightarrow> real list" where
  "decodedChannel raw i =
     [rescale 0 40 (raw ! (4 * i)), rescale 0.3 20 (raw ! (4 * i + 1)),
      rescale (- M_PI) M_PI (raw ! (4 * i + 2)), rescale 0 40 (raw ! (4 * i + 3))]"

definition unitInterval :: "real list \<Rightarrow> bool" where
  "unitInterval raw = list_all (\<lambda>v. 0 \<le> v \<and> v \<le> 1) raw"

definition channelInRange :: "real list \<Rightarrow> bool" where
  "channelInRange ch =
     (length ch = 4 \<and> 0 \<le> ch ! 0 \<and> ch ! 0 \<le> 40 \<and> 0.3 \<le> ch ! 1 \<and> ch ! 1 \<le> 20 \<and>
      - M_PI \<le> ch ! 2 \<and> ch ! 2 \<le> M_PI \<and> 0 \<le> ch ! 3 \<and> ch ! 3 \<le> 40)"

definition params18 :: "real list" where
  "params18 = [0, 0, 0, 0,  1, 1, 1, 1,  0.5, 0.5, 0.5, 0.5,  0.25, 1, 0, 0.75,  0.25, 0.1]"

definition params16 :: "real list" where
  "params16 = [0, 0, 0, 0,  1, 1, 1, 1,  0.5, 0.5, 0.5, 0.5,  0.25, 1, 0, 0.75]"

definition env_example :: environment where
  "env_example = \<lparr> ifstream = (\<lambda>f. None), atof = (\<lambda>s. 0), rand = (\<lambda>k. 50) \<rparr>"

text \<open>The lock state machine run over successive ticks, one reading of the subject per tick.\<close>

fun lockTicks ::
  "DuCTTLearningController \<Rightarrow> DuCTTRobotModel list \<Rightarrow> bool \<Rightarrow>
   bool list \<times> DuCTTLearningController" where
  "lockTicks c [] isTop = ([], c)"
| "lockTicks c (subject # rest) isTop =
     (case isLocked c subject isTop of
        (locked, c') \<Rightarrow>
          (case lockTicks c' rest isTop of (ls, c'') \<Rightarrow> (locked # ls, c'')))"

text \<open>
  The state of one joint's machine and its two inputs. \<open>threshold\<close> is the value
  \<^verbatim>\<open>maxCount\<close> has in the next call of \<^verbatim>\<open>isLocked\<close>.
\<close>

definition pausedOf :: "DuCTTLearningController \<Rightarrow> bool \<Rightarrow> bool" where
  "pausedOf c isTop = (if isTop then m_bTopPaused c else m_bBottomPaused c)"

definition counterOf :: "DuCTTLearningController \<Rightarrow> bool \<Rightarrow> int" where
  "counterOf c isTop = (if isTop then topCounter c else bottomCounter c)"

definition pauseSignal :: "DuCTTRobotModel \<Rightarrow> bool \<Rightarrow> bool" where
  "pauseSignal subject isTop =
     (if isTop then shouldPause (topTouchSensors subject)
      else shouldPause (bottomTouchSensors subject))"

definition unpauseSignal :: "DuCTTRobotModel \<Rightarrow> bool \<Rightarrow> bool" where
  "unpauseSignal subject isTop = pauseSignal subject (\<not> isTop)"

definition threshold :: "DuCTTLearningController \<Rightarrow> real" where
  "threshold c = (case maxCount c of None \<Rightarrow> m_dHistorisisSeconds c * 1000 | Some v \<Rightarrow> v)"

text \<open>Example readings: only the bottom group fully touching, and both groups.\<close>

definition touching_bottom :: DuCTTRobotModel where
  "touching_bottom = robot_example [] [True, True] [False, True] origin"

definition touching_both :: DuCTTRobotModel where
  "touching_both = robot_example [] [True, True] [True, True] origin"

definition quick_controller :: DuCTTLearningController where
  "quick_controller =
     (new_DuCTTLearningController 5 False [] 1 False origin None)\<lparr> m_dHistorisisSeconds := 0.002 \<rparr>"









text \<open>
  Example inputs. \<open>offsets16\<close> decodes to amplitude 0 and the offsets 10, 20, 30, 40 for
  channels 0 to 3. \<open>phase_controller\<close> has all channels at amplitude 1, frequency 0 and
  offset 0, and only channel 0 with a phase change, of \<open>pi / 2\<close>;
  \<open>phase_controller_1\<close> has that phase change on channel 1 instead.
\<close>

definition offsets16 :: "real list" where
  "offsets16 = [0, 0, 0.5, 0.25,  0, 0, 0.5, 0.5,  0, 0, 0.5, 0.75,  0, 0, 0.5, 1]"

definition eight_muscles :: "SpringCableActuatorHistory list" where
  "eight_muscles = replicate 8 \<lparr> tensionHistory = [], restLengths = [] \<rparr>"

definition phase_controller :: DuCTTLearningController where
  "phase_controller =
     (new_DuCTTLearningController 5 False [] 1 False origin None)
       \<lparr> m_totalTime := 3,
         prisms := [Some BottomPrismatic, Some TopPrismatic],
         clusters := [[Some 0, Some 1, Some 2, Some 3], [Some 4, Some 5, Some 6, Some 7]],
         amplitude := [Some 1, Some 1, Some 1, None],
         angularFrequency := [Some 0, Some 0, Some 0, None],
         phaseChange := [Some (pi / 2), Some 0, Some 0, None],
         dcOffset := [Some 0, Some 0, Some 0, None] \<rparr>"



text \<open>
  Manual parameter lines of 19 fields, one more than \<open>nActions * 4 + 2 = 18\<close>, and
  of 18 fields, and an environment that serves a line as the file.
\<close>

definition line19 :: string where
  "line19 = ''0,0,0,0,0,0,0,0,0,0,0,0,0,0,0,0,0,0,0''"

definition line18 :: string where
  "line18 = ''0,0,0,0,0,0,0,0,0,0,0,0,0,0,0,0,0,0''"

definition env_manual :: "string \<Rightarrow> environment" where
  "env_manual line = \<lparr> ifstream = (\<lambda>f. Some line), atof = (\<lambda>s. 0), rand = (\<lambda>k. 50) \<rparr>"

text \<open>
  \<open>offsets16\<close> with the two flag slots: touch sensors not ignored, hysteresis 0.
\<close>

definition flags18 :: "real list" where
  "flags18 = offsets16 @ [1, 0]"

section \<open>Lists written out\<close>

lemma replicate_numerals:
  "replicate 2 x = [x, x]" "replicate 4 x = [x, x, x, x]" "replicate 8 x = [x, x, x, x, x, x, x, x]"
  by (simp_all add: eval_nat_numeral)

lemma list_update_numerals:
  "(a # b # xs)[1 := v] = a # v # xs"
  "(a # b # c # xs)[2 := v] = a # b # v # xs"
  "(a # b # c # d # xs)[3 := v] = a # b # c # v # xs"
  by (simp_all add: eval_nat_numeral)

section \<open>The energy metric\<close>

lemma historyLoop_sum:
  "\<forall>j\<in>set js. 0 < j \<and> j < length (tensionHistory h) \<and> j < length (restLengths h) \<Longrightarrow>
   historyLoop h js spent = Inr (spent + (\<Sum>j\<leftarrow>js. contractionWork h j))"
proof (induction js arbitrary: spent)
  case Nil
  then show ?case by simp
next
  case (Cons j js)
  then have j: "0 < j" "j < length (tensionHistory h)" "j < length (restLengths h)"
    by simp_all
  then have j1: "j - 1 < length (tensionHistory h)" "j - 1 < length (restLengths h)"
    by simp_all
  have step: "(if 0 < restLengths h ! j - restLengths h ! (j - 1) then 0
               else restLengths h ! j - restLengths h ! (j - 1))
              = min 0 (restLengths h ! j - restLengths h ! (j - 1))"
    by (simp add: min_def)
  from Cons.prems
  have rest: "\<forall>j\<in>set js. 0 < j \<and> j < length (tensionHistory h) \<and> j < length (restLengths h)"
    by simp
  show ?case
    using j j1 step
    by (simp add: elem_def Let_def Cons.IH[OF rest] contractionWork_def algebra_simps
        del: One_nat_def)
qed

lemma historyLoop_parallel:
  "parallelHistory h \<Longrightarrow>
   historyLoop h [1..<length (tensionHistory h)] spent =
     Inr (spent + (\<Sum>j\<leftarrow>[1..<length (tensionHistory h)]. contractionWork h j))"
  by (rule historyLoop_sum) (auto simp: parallelHistory_def)

lemma stringsLoop_sum:
  "list_all parallelHistory hs \<Longrightarrow> stringsLoop hs spent = Inr (spent + energyMetric hs)"
  by (induction hs arbitrary: spent)
    (simp_all add: energyMetric_def historyLoop_parallel del: One_nat_def)

lemma totalEnergySpent_returns:
  "list_all parallelHistory (getAllMuscles subject) \<Longrightarrow>
   totalEnergySpent subject = Inr (energyMetric (getAllMuscles subject))"
  by (simp add: totalEnergySpent_def stringsLoop_sum)

lemma contractionWork_zero:
  "restLengths h ! (j - 1) \<le> restLengths h ! j \<Longrightarrow> contractionWork h j = 0"
  by (simp add: contractionWork_def min_def)

lemma sum_list_all_zero:
  "\<forall>x\<in>set xs. f x = (0::real) \<Longrightarrow> sum_list (map f xs) = 0"
  by (induction xs) simp_all

lemma energyMetric_zero:
  "\<forall>h\<in>set hs. \<forall>j\<in>set [1..<length (tensionHistory h)].
      restLengths h ! (j - 1) \<le> restLengths h ! j \<Longrightarrow>
   energyMetric hs = 0"
  unfolding energyMetric_def
  by (intro sum_list_all_zero ballI) (simp add: contractionWork_zero del: One_nat_def)

text \<open>
  Claim C8. On parallel histories \<^verbatim>\<open>totalEnergySpent\<close> returns the sum, over all
  actuators and all consecutive history samples, of the previous tension times
  \<open>min 0 (current rest length - previous rest length)\<close>; when no rest length ever
  decreases the result is exactly 0, so lengthening never contributes.
\<close>

theorem C8_energy_metric:
  assumes "list_all parallelHistory (getAllMuscles subject)"
  shows "totalEnergySpent subject = Inr (energyMetric (getAllMuscles subject)) \<and>
         ((\<forall>h\<in>set (getAllMuscles subject). \<forall>j\<in>set [1..<length (tensionHistory h)].
              restLengths h ! (j - 1) \<le> restLengths h ! j) \<longrightarrow>
          totalEnergySpent subject = Inr 0)"
  using assms
  by (simp add: totalEnergySpent_returns energyMetric_zero del: One_nat_def)

theorem C8_energy_metric_witness:
  "totalEnergySpent
     (robot_example [\<lparr> tensionHistory = [5, 7, 3], restLengths = [3, 2, 4] \<rparr>,
                     \<lparr> tensionHistory = [1, 1], restLengths = [6, 4] \<rparr>] [] [] origin)
     = Inr (- 7) \<and>
   totalEnergySpent
     (robot_example [\<lparr> tensionHistory = [5, 7, 3], restLengths = [2, 2, 4] \<rparr>] [] [] origin)
     = Inr 0"
  using
    C8_energy_metric[of "robot_example [\<lparr> tensionHistory = [5, 7, 3], restLengths = [3, 2, 4] \<rparr>,
                     \<lparr> tensionHistory = [1, 1], restLengths = [6, 4] \<rparr>] [] [] origin"]
    C8_energy_metric[of "robot_example [\<lparr> tensionHistory = [5, 7, 3], restLengths = [2, 2, 4] \<rparr>]
                     [] [] origin"]
  by (simp add: robot_example_def parallelHistory_def energyMetric_def contractionWork_def
      upt_conv_Cons)

section \<open>The score vector\<close>

text \<open>
  Claim C7. \<^verbatim>\<open>onTeardown\<close> reports exactly two scores. The first is -1 when the bad-run
  flag is set, whatever the centre of mass did; otherwise it is \<open>\<bar>dx\<bar>\<close> for axis 0,
  \<open>\<bar>dz\<bar>\<close> for axis 2, the Euclidean distance for axis 3, and the signed \<open>dy\<close> (final
  minus initial) for axis 1 and every other axis value.
\<close>

theorem C7_score_vector:
  assumes "list_all parallelHistory (getAllMuscles subject)"
  shows "\<exists>c' scores.
           onTeardown c subject = Inr (c', [EndEpisode (m_bUseNeuro c) scores]) \<and>
           length scores = 2 \<and>
           scores ! 0 =
             (if m_bBadRun c then - 1
              else if m_axis c = 0 then \<bar>vec_x (getCOM subject) - vec_x (initPosition c)\<bar>
              else if m_axis c = 2 then \<bar>vec_z (getCOM subject) - vec_z (initPosition c)\<bar>
              else if m_axis c = 3 then
                sqrt ((vec_x (getCOM subject) - vec_x (initPosition c))\<^sup>2 +
                      (vec_y (getCOM subject) - vec_y (initPosition c))\<^sup>2 +
                      (vec_z (getCOM subject) - vec_z (initPosition c))\<^sup>2)
              else vec_y (getCOM subject) - vec_y (initPosition c))"
  using assms
  by (simp add: onTeardown_def bindE_def totalEnergySpent_returns displacement_def Let_def
      power2_eq_square)

theorem C7_score_vector_witness:
  "(\<exists>c' scores.
      onTeardown (new_DuCTTLearningController 5 False [] 1 False origin None)
        (robot_example [] [] [] \<lparr> vec_x = 0, vec_y = 5, vec_z = 0 \<rparr>)
        = Inr (c', [EndEpisode False scores]) \<and>
      length scores = 2 \<and> scores ! 0 = 5) \<and>
   (\<exists>c' scores.
      onTeardown ((new_DuCTTLearningController 5 False [] 3 False origin None)\<lparr> m_bBadRun := True \<rparr>)
        (robot_example [] [] [] \<lparr> vec_x = 3, vec_y = 5, vec_z = 4 \<rparr>)
        = Inr (c', [EndEpisode False scores]) \<and>
      length scores = 2 \<and> scores ! 0 = - 1)"
  using
    C7_score_vector[of "robot_example [] [] [] \<lparr> vec_x = 0, vec_y = 5, vec_z = 0 \<rparr>"
      "new_DuCTTLearningController 5 False [] 1 False origin None"]
    C7_score_vector[of "robot_example [] [] [] \<lparr> vec_x = 3, vec_y = 5, vec_z = 4 \<rparr>"
      "(new_DuCTTLearningController 5 False [] 3 False origin None)\<lparr> m_bBadRun := True \<rparr>"]
  by (simp add: robot_example_def new_DuCTTLearningController_def origin_def)

section \<open>The decoder\<close>

lemma sequenceE_map:
  "\<forall>x\<in>set xs. f x = Inr (g x) \<Longrightarrow> sequenceE (map f xs) = Inr (map g xs)"
  by (induction xs) simp_all

lemma scaleChannel_decoded:
  assumes "4 * i + 3 < length params"
  shows "scaleChannel params i = Inr (decodedChannel params i)"
proof -
  have "scaleChannel params i =
        Inr (map (\<lambda>j. params ! (i * N_PARAMS + j) * (ranges ! j) + mins ! j) [0..<N_PARAMS])"
    unfolding scaleChannel_def using assms
    by (intro sequenceE_map ballI) (auto simp: elem_def bindE_def N_PARAMS_def)
  also have "[0..<N_PARAMS] = [0, 1, 2, 3]"
    by (simp add: N_PARAMS_def upt_conv_Cons)
  finally show ?thesis
    by (simp add: decodedChannel_def rescale_def N_PARAMS_def ranges_def mins_def maxes_def
        mult.commute)
qed

lemma scaleActions_decoded:
  assumes "4 * n \<le> length params"
  shows "sequenceE (map (scaleChannel params) [0..<n]) = Inr (map (decodedChannel params) [0..<n])"
  using assms by (intro sequenceE_map ballI scaleChannel_decoded) auto

lemma M_PI_pos: "0 < M_PI"
  by (simp add: M_PI_def)

lemma rescale_bounds:
  assumes "0 \<le> raw" "raw \<le> 1" "lo \<le> hi"
  shows "lo \<le> rescale lo hi raw \<and> rescale lo hi raw \<le> hi"
proof -
  have "0 \<le> raw * (hi - lo)" using assms by simp
  moreover have "raw * (hi - lo) \<le> 1 * (hi - lo)"
    using assms by (intro mult_right_mono) simp_all
  ultimately show ?thesis by (simp add: rescale_def)
qed

lemma decodedChannel_inRange:
  assumes "unitInterval raw" "4 * i + 3 < length raw"
  shows "channelInRange (decodedChannel raw i)"
proof -
  have u: "\<And>k. k < length raw \<Longrightarrow> 0 \<le> raw ! k \<and> raw ! k \<le> 1"
    using assms(1) by (simp add: unitInterval_def list_all_length)
  have "4 * i < length raw" "4 * i + 1 < length raw" "4 * i + 2 < length raw"
    using assms(2) by simp_all
  then show ?thesis
    using rescale_bounds[of "raw ! (4 * i)" 0 40]
      rescale_bounds[of "raw ! (4 * i + 1)" "0.3" 20]
      rescale_bounds[of "raw ! (4 * i + 2)" "- M_PI" M_PI]
      rescale_bounds[of "raw ! (4 * i + 3)" 0 40] u assms(2) M_PI_pos
    by (simp add: channelInRange_def decodedChannel_def)
qed

text \<open>
  Claim C6. A vector of exactly \<open>4 * nActions\<close> entries in [0,1], taken from the
  optimizer, decodes by \<open>raw*(max-min)+min\<close> to channels within amplitude [0,40],
  frequency [0.3,20], phase [-M_PI,M_PI] (the source's constant for pi) and offset [0,40];
  the controller comes back unchanged, so neither flag was assigned.
\<close>

theorem C6_exact_length_decode:
  assumes "\<not> m_usingManualParams c" and "actions \<noteq> []"
    and "length (actions ! 0) = 4 * nActions c" and "unitInterval (actions ! 0)"
  shows "transformActions c env actions =
           Inr (map (decodedChannel (actions ! 0)) [0..<nActions c], c) \<and>
         list_all channelInRange (map (decodedChannel (actions ! 0)) [0..<nActions c])"
proof -
  have "transformActions c env actions =
           Inr (map (decodedChannel (actions ! 0)) [0..<nActions c], c)"
    using assms(1-3)
    by (simp add: transformActions_def bindE_def elem_def scaleActions_decoded)
  moreover have "list_all channelInRange (map (decodedChannel (actions ! 0)) [0..<nActions c])"
    using assms(3,4) by (auto simp: list_all_iff intro!: decodedChannel_inRange)
  ultimately show ?thesis by simp
qed

text \<open>
  Claim C4. For a parameter vector \<open>raw\<close> of \<open>4 * nActions + 2\<close> entries in [0,1]
  (and an adapter vector of that length, which is \<open>raw\<close> itself unless the manual file
  is used), the slot at \<open>4 * nActions\<close> sets \<open>m_bIgnoreTouchSensors\<close> to
  \<open>value < 0.5\<close>, the slot at \<open>4 * nActions + 1\<close> sets \<open>m_dHistorisisSeconds\<close> to its
  value rescaled into [0,2], and the channels are those decoded from the first
  \<open>4 * nActions\<close> entries alone.
\<close>

theorem C4_flag_slots:
  assumes "if m_usingManualParams c
           then readManualParams c env 1 (m_manualParamFile c) = Inr raw
           else actions ! 0 = raw"
    and "actions \<noteq> []" and "length (actions ! 0) = 4 * nActions c + 2"
    and "length raw = 4 * nActions c + 2" and "unitInterval raw"
  shows "transformActions c env actions =
           Inr (map (decodedChannel raw) [0..<nActions c],
                c\<lparr> m_bIgnoreTouchSensors := raw ! (4 * nActions c) < 0.5,
                   m_dHistorisisSeconds := rescale 0 2 (raw ! (4 * nActions c + 1)) \<rparr>) \<and>
         0 \<le> rescale 0 2 (raw ! (4 * nActions c + 1)) \<and>
         rescale 0 2 (raw ! (4 * nActions c + 1)) \<le> 2 \<and>
         transformActions (c\<lparr> m_usingManualParams := False \<rparr>) env [take (4 * nActions c) raw] =
           Inr (map (decodedChannel raw) [0..<nActions c], c\<lparr> m_usingManualParams := False \<rparr>)"
proof -
  let ?n = "nActions c"
  have src: "(if m_usingManualParams c then readManualParams c env 1 (m_manualParamFile c)
              else elem actions 0) = Inr raw"
    using assms(1,2) by (simp add: elem_def split: if_splits)
  have a0: "elem actions 0 = Inr (actions ! 0)"
    using assms(2) by (simp add: elem_def)
  have chans: "sequenceE (map (scaleChannel raw) [0..<?n]) = Inr (map (decodedChannel raw) [0..<?n])"
    using assms(4) by (intro scaleActions_decoded) simp
  have m4: "length raw mod 4 \<noteq> 0"
    using assms(4) by presburger
  have n1: "nat (4 * int k) = 4 * k" and n2: "nat (1 + 4 * int k) = Suc (4 * k)" for k
    by simp_all
  have main: "transformActions c env actions =
           Inr (map (decodedChannel raw) [0..<?n],
                c\<lparr> m_bIgnoreTouchSensors := raw ! (4 * ?n) < 0.5,
                   m_dHistorisisSeconds := rescale 0 2 (raw ! (4 * ?n + 1)) \<rparr>)"
    unfolding transformActions_def src
    using m4 assms(2,3,4)
    by (simp add: bindE_def chans a0 Let_def rescale_def elemI_def elem_def N_PARAMS_def n1 n2)
  have "4 * ?n + 1 < length raw" using assms(4) by simp
  then have u: "0 \<le> raw ! (4 * ?n + 1) \<and> raw ! (4 * ?n + 1) \<le> 1"
    using assms(5) by (simp add: unitInterval_def list_all_length)
  have bounds: "0 \<le> rescale 0 2 (raw ! (4 * ?n + 1)) \<and> rescale 0 2 (raw ! (4 * ?n + 1)) \<le> 2"
    using u rescale_bounds[of "raw ! (4 * ?n + 1)" 0 2] by simp
  have same: "map (decodedChannel (take (4 * ?n) raw)) [0..<?n] = map (decodedChannel raw) [0..<?n]"
    by (rule map_cong) (auto simp: decodedChannel_def)
  have noflag: "transformActions (c\<lparr> m_usingManualParams := False \<rparr>) env [take (4 * ?n) raw] =
           Inr (map (decodedChannel raw) [0..<?n], c\<lparr> m_usingManualParams := False \<rparr>)"
    using assms(4)
    by (simp add: transformActions_def bindE_def elem_def scaleActions_decoded same)
  show ?thesis using main bounds noflag by simp
qed

theorem C6_exact_length_decode_witness:
  "\<not> m_usingManualParams (new_DuCTTLearningController 5 False [] 1 False origin None) \<and>
   [params16] \<noteq> [] \<and>
   length ([params16] ! 0) = 4 * nActions (new_DuCTTLearningController 5 False [] 1 False origin None) \<and>
   unitInterval ([params16] ! 0) \<and>
   transformActions (new_DuCTTLearningController 5 False [] 1 False origin None) env_example [params16] =
     Inr ([[0, 0.3, - M_PI, 0], [40, 20, M_PI, 40], [20, 10.15, 0, 20], [10, 20, - M_PI, 30]],
          new_DuCTTLearningController 5 False [] 1 False origin None)"
  using C6_exact_length_decode[of "new_DuCTTLearningController 5 False [] 1 False origin None" "[params16]"
      env_example]
  by (simp add: new_DuCTTLearningController_def params16_def unitInterval_def
      decodedChannel_def rescale_def upt_conv_Cons)

text \<open>A manual parameter file of one line of 18 zeros, read by \<^verbatim>\<open>readManualParams\<close>.\<close>

lemma replicate_18:
  "replicate 18 x = [x, x, x, x, x, x, x, x, x, x, x, x, x, x, x, x, x, x]"
  by (simp add: eval_nat_numeral)

lemma grab18: "grabLine (nat 1) (open_stream line18) [] = line18"
  by (simp add: line18_def open_stream_def getline_def)

lemma split18:
  "splitLine (\<lambda>s. 0) 18 (open_stream line18) [] 0 (replicate 18 1) = Inr (replicate 18 0)"
  by (simp add: line18_def open_stream_def getline_def updI_def upd_def replicate_18
      list_update_code)

lemma manual18:
  "readManualParams (new_DuCTTLearningController 5 True ''params.csv'' 1 False origin None)
     (env_manual line18) 1 ''params.csv'' = Inr (replicate 18 0)"
proof -
  have t: "tweak (\<lambda>k. 50) 0 (replicate 18 0) = replicate 18 0"
    by (simp add: replicate_18 Let_def)
  show ?thesis
    using grab18 split18 t
    by (simp add: readManualParams_def new_DuCTTLearningController_def env_manual_def Let_def
        N_PARAMS_def bindE_def del: splitLine.simps grabLine.simps)
qed

theorem C4_flag_slots_witness:
  "length params18 = 4 * nActions (new_DuCTTLearningController 5 False [] 1 False origin None) + 2 \<and>
   unitInterval params18 \<and>
   transformActions (new_DuCTTLearningController 5 False [] 1 False origin None) env_example [params18] =
     Inr ([[0, 0.3, - M_PI, 0], [40, 20, M_PI, 40], [20, 10.15, 0, 20], [10, 20, - M_PI, 30]],
          (new_DuCTTLearningController 5 False [] 1 False origin None)
            \<lparr> m_bIgnoreTouchSensors := True, m_dHistorisisSeconds := 0.2 \<rparr>) \<and>
   transformActions (new_DuCTTLearningController 5 False [] 1 False origin None) env_example
       [take 16 params18] =
     Inr ([[0, 0.3, - M_PI, 0], [40, 20, M_PI, 40], [20, 10.15, 0, 20], [10, 20, - M_PI, 30]],
          new_DuCTTLearningController 5 False [] 1 False origin None) \<and>
   transformActions (new_DuCTTLearningController 5 True ''params.csv'' 1 False origin None)
       (env_manual line18) [params18] =
     Inr ([[0, 0.3, - M_PI, 0], [0, 0.3, - M_PI, 0], [0, 0.3, - M_PI, 0], [0, 0.3, - M_PI, 0]],
          (new_DuCTTLearningController 5 True ''params.csv'' 1 False origin None)
            \<lparr> m_bIgnoreTouchSensors := True, m_dHistorisisSeconds := 0 \<rparr>)"
  using C4_flag_slots[of "new_DuCTTLearningController 5 False [] 1 False origin None" env_example params18
      "[params18]"]
    C4_flag_slots[of "new_DuCTTLearningController 5 True ''params.csv'' 1 False origin None"
      "env_manual line18" "replicate 18 0" "[params18]"]
    manual18
  by (simp add: new_DuCTTLearningController_def params18_def unitInterval_def
      decodedChannel_def rescale_def upt_conv_Cons replicate_18)

section \<open>The lock state machine over time\<close>

lemma shouldPause_all: "shouldPause ts = list_all (\<lambda>t. t) ts"
proof -
  have "fold (\<lambda>isTouching sp. if \<not> isTouching then False else sp) ts b = (b \<and> list_all (\<lambda>t. t) ts)" for b
    by (induction ts arbitrary: b) auto
  then show ?thesis by (simp add: shouldPause_def)
qed

lemma isLocked_step:
  assumes "isLocked c subject isTop = (locked, c')"
  defines "cnt \<equiv> counterOf c isTop +
            (if (pauseSignal subject isTop \<and> \<not> pausedOf c isTop) \<or>
                (unpauseSignal subject isTop \<and> pausedOf c isTop) then 1 else 0)"
  defines "fire \<equiv> pauseSignal subject isTop \<and> real_of_int cnt > threshold c"
  shows "pausedOf c' isTop = (if fire then \<not> pausedOf c isTop else pausedOf c isTop)"
    and "counterOf c' isTop = (if fire then 0 else cnt)"
    and "locked = (fire \<and> \<not> pausedOf c isTop)"
    and "threshold c' = threshold c"
  using assms(1) unfolding cnt_def fire_def
  by (auto simp: isLocked_def Let_def pausedOf_def counterOf_def pauseSignal_def
      unpauseSignal_def threshold_def split: if_splits option.splits)

lemma lockTicks_append:
  "lockTicks c (xs @ ys) isTop =
     (case lockTicks c xs isTop of
        (l1, c1) \<Rightarrow> (case lockTicks c1 ys isTop of (l2, c2) \<Rightarrow> (l1 @ l2, c2)))"
  by (induction xs arbitrary: c) (auto split: prod.splits)

lemma lockTicks_counting:
  assumes "threshold c = real N" and "pausedOf c isTop = P" and "counterOf c isTop = int j"
    and "list_all (\<lambda>s. (pauseSignal s isTop \<and> \<not> P) \<or> (unpauseSignal s isTop \<and> P)) subjects"
    and "j + length subjects \<le> N"
  shows "\<exists>c'. lockTicks c subjects isTop = (replicate (length subjects) False, c') \<and>
              threshold c' = real N \<and> pausedOf c' isTop = P \<and>
              counterOf c' isTop = int (j + length subjects)"
  using assms
proof (induction subjects arbitrary: c j)
  case Nil
  then show ?case by simp
next
  case (Cons s rest)
  obtain locked c1 where step: "isLocked c s isTop = (locked, c1)"
    by (cases "isLocked c s isTop")
  have inc: "(pauseSignal s isTop \<and> \<not> pausedOf c isTop) \<or> (unpauseSignal s isTop \<and> pausedOf c isTop)"
    using Cons.prems(2,4) by auto
  have nofire: "\<not> (real_of_int (counterOf c isTop + 1) > threshold c)"
    using Cons.prems(1,3,5) by simp
  have c1: "pausedOf c1 isTop = P" "counterOf c1 isTop = int (Suc j)" "\<not> locked"
    "threshold c1 = real N"
    using isLocked_step[OF step] inc nofire Cons.prems(1,2,3) by (auto split: if_splits)
  have "\<exists>c'. lockTicks c1 rest isTop = (replicate (length rest) False, c') \<and>
              threshold c' = real N \<and> pausedOf c' isTop = P \<and>
              counterOf c' isTop = int (Suc j + length rest)"
    using Cons.prems(4,5) by (intro Cons.IH c1) simp_all
  then show ?case
    using step c1(3) by auto
qed

lemma lockTicks_idle:
  assumes "threshold c = real N" and "pausedOf c isTop = P" and "counterOf c isTop = 0"
    and "list_all (\<lambda>s. \<not> ((pauseSignal s isTop \<and> \<not> P) \<or> (unpauseSignal s isTop \<and> P))) subjects"
  shows "\<exists>c'. lockTicks c subjects isTop = (replicate (length subjects) False, c') \<and>
              threshold c' = real N \<and> pausedOf c' isTop = P \<and> counterOf c' isTop = 0"
  using assms
proof (induction subjects arbitrary: c)
  case Nil
  then show ?case by simp
next
  case (Cons s rest)
  obtain locked c1 where step: "isLocked c s isTop = (locked, c1)"
    by (cases "isLocked c s isTop")
  have inc: "\<not> ((pauseSignal s isTop \<and> \<not> pausedOf c isTop) \<or> (unpauseSignal s isTop \<and> pausedOf c isTop))"
    using Cons.prems(2,4) by auto
  have c1: "pausedOf c1 isTop = P" "counterOf c1 isTop = 0" "\<not> locked" "threshold c1 = real N"
    using isLocked_step[OF step] inc Cons.prems(1,2,3) by (auto split: if_splits)
  have "\<exists>c'. lockTicks c1 rest isTop = (replicate (length rest) False, c') \<and>
              threshold c' = real N \<and> pausedOf c' isTop = P \<and> counterOf c' isTop = 0"
    using Cons.prems(4) by (intro Cons.IH c1) simp_all
  then show ?case
    using step c1(3) by auto
qed

lemma isLocked_fires:
  assumes "threshold c = real N" and "counterOf c isTop = int N"
    and "pauseSignal s isTop"
    and "\<not> pausedOf c isTop \<or> unpauseSignal s isTop"
  shows "\<exists>c'. isLocked c s isTop = (\<not> pausedOf c isTop, c') \<and> threshold c' = real N \<and>
              pausedOf c' isTop = (\<not> pausedOf c isTop) \<and> counterOf c' isTop = 0"
proof -
  obtain locked c1 where step: "isLocked c s isTop = (locked, c1)"
    by (cases "isLocked c s isTop")
  show ?thesis
    using isLocked_step[OF step] assms step by (auto split: if_splits)
qed

text \<open>One full debounce period: \<open>N\<close> counting ticks and the tick that fires.\<close>

lemma lockTicks_period:
  assumes "threshold c = real N" and "counterOf c isTop = 0"
    and "list_all (\<lambda>s. pauseSignal s isTop \<and> (\<not> pausedOf c isTop \<or> unpauseSignal s isTop)) subjects"
    and "length subjects = Suc N"
  shows "\<exists>c'. lockTicks c subjects isTop = (replicate N False @ [\<not> pausedOf c isTop], c') \<and>
              threshold c' = real N \<and> pausedOf c' isTop = (\<not> pausedOf c isTop) \<and>
              counterOf c' isTop = 0"
proof -
  obtain pre s where split: "subjects = pre @ [s]" and pre: "length pre = N"
    using assms(4) by (metis length_Suc_conv_rev)
  have sig: "list_all (\<lambda>s. (pauseSignal s isTop \<and> \<not> pausedOf c isTop) \<or>
                          (unpauseSignal s isTop \<and> pausedOf c isTop)) pre"
    using assms(3) split by (auto simp: list_all_iff)
  obtain c1 where c1: "lockTicks c pre isTop = (replicate N False, c1)" "threshold c1 = real N"
    "pausedOf c1 isTop = pausedOf c isTop" "counterOf c1 isTop = int N"
    using lockTicks_counting[OF assms(1) refl _ sig, of 0] assms(2) pre by auto
  have s: "pauseSignal s isTop" "\<not> pausedOf c1 isTop \<or> unpauseSignal s isTop"
    using assms(3) split c1(3) by auto
  obtain c2 where c2: "isLocked c1 s isTop = (\<not> pausedOf c1 isTop, c2)" "threshold c2 = real N"
    "pausedOf c2 isTop = (\<not> pausedOf c1 isTop)" "counterOf c2 isTop = 0"
    using isLocked_fires[OF c1(2) c1(4) s] by auto
  show ?thesis
    using c1 c2 by (simp add: split lockTicks_append)
qed

text \<open>
  Claim C2, as amended. A joint starts UNPAUSED with counter 0, \<open>N\<close> is
  \<open>hysteresisSeconds * 1000\<close> (the static threshold not yet initialised, or initialised
  with that value), and the joint's pause group is fully touching on each of \<open>N + 1\<close>
  ticks. Then the joint is UNPAUSED after every tick up to \<open>N\<close>, the call returns locked
  on tick \<open>N + 1\<close> and on no earlier tick, and the joint is PAUSED after it. A further
  \<open>N + 1\<close> ticks of pause signal toggle it back to UNPAUSED when the unpause group is
  fully touching on them as well; while the unpause group is not, the joint stays PAUSED,
  for any number of ticks.
\<close>

theorem C2_lock_hysteresis:
  assumes "m_dHistorisisSeconds c * 1000 = real N"
    and "maxCount c = None \<or> maxCount c = Some (real N)"
    and "\<not> pausedOf c isTop" and "counterOf c isTop = 0"
    and "list_all (\<lambda>s. pauseSignal s isTop) subjects" and "length subjects = N + 1"
  shows "(\<forall>k\<le>N. \<not> pausedOf (snd (lockTicks c (take k subjects) isTop)) isTop) \<and>
         fst (lockTicks c subjects isTop) = replicate N False @ [True] \<and>
         pausedOf (snd (lockTicks c subjects isTop)) isTop \<and>
         (\<forall>again. list_all (\<lambda>s. pauseSignal s isTop \<and> unpauseSignal s isTop) again \<and>
                  length again = N + 1 \<longrightarrow>
                  \<not> pausedOf (snd (lockTicks c (subjects @ again) isTop)) isTop) \<and>
         (\<forall>more. list_all (\<lambda>s. pauseSignal s isTop \<and> \<not> unpauseSignal s isTop) more \<longrightarrow>
                  pausedOf (snd (lockTicks c (subjects @ more) isTop)) isTop)"
proof -
  have thr: "threshold c = real N"
    using assms(1,2) by (auto simp: threshold_def)
  have early: "\<not> pausedOf (snd (lockTicks c (take k subjects) isTop)) isTop" if k: "k \<le> N" for k
  proof -
    have "list_all (\<lambda>s. (pauseSignal s isTop \<and> \<not> False) \<or> (unpauseSignal s isTop \<and> False))
            (take k subjects)"
      using assms(5) by (auto simp: list_all_iff dest: in_set_takeD)
    moreover have "0 + length (take k subjects) \<le> N"
      using k assms(6) by simp
    ultimately obtain c' where "lockTicks c (take k subjects) isTop =
        (replicate (length (take k subjects)) False, c')" "pausedOf c' isTop = False"
      using lockTicks_counting[OF thr _ _, of isTop False 0 "take k subjects"] assms(3,4)
      by auto
    then show ?thesis by simp
  qed
  have "list_all (\<lambda>s. pauseSignal s isTop \<and> (\<not> pausedOf c isTop \<or> unpauseSignal s isTop)) subjects"
    using assms(3,5) by (auto simp: list_all_iff)
  then obtain c1 where c1: "lockTicks c subjects isTop = (replicate N False @ [True], c1)"
    "threshold c1 = real N" "pausedOf c1 isTop" "counterOf c1 isTop = 0"
    using lockTicks_period[OF thr assms(4), of subjects] assms(3,6) by auto
  have toggles: "\<not> pausedOf (snd (lockTicks c (subjects @ again) isTop)) isTop"
    if both: "list_all (\<lambda>s. pauseSignal s isTop \<and> unpauseSignal s isTop) again"
      and len: "length again = N + 1" for again
  proof -
    have "list_all (\<lambda>s. pauseSignal s isTop \<and> (\<not> pausedOf c1 isTop \<or> unpauseSignal s isTop)) again"
      using both by (auto simp: list_all_iff)
    then obtain c2 where "lockTicks c1 again isTop = (replicate N False @ [\<not> pausedOf c1 isTop], c2)"
      "pausedOf c2 isTop = (\<not> pausedOf c1 isTop)"
      using lockTicks_period[OF c1(2) c1(4), of again] len by auto
    then show ?thesis
      using c1 by (simp add: lockTicks_append)
  qed
  have stay: "pausedOf (snd (lockTicks c (subjects @ more) isTop)) isTop"
    if only: "list_all (\<lambda>s. pauseSignal s isTop \<and> \<not> unpauseSignal s isTop) more" for more
  proof -
    have "list_all (\<lambda>s. \<not> ((pauseSignal s isTop \<and> \<not> True) \<or> (unpauseSignal s isTop \<and> True))) more"
      using only by (auto simp: list_all_iff)
    then obtain c2 where "lockTicks c1 more isTop = (replicate (length more) False, c2)"
      "pausedOf c2 isTop = True"
      using lockTicks_idle[OF c1(2) _ c1(4), of True more] c1(3) by auto
    then show ?thesis
      using c1 by (simp add: lockTicks_append)
  qed
  show ?thesis
    using early c1 toggles stay by simp
qed

lemma touching_signals:
  "pauseSignal touching_bottom False" "\<not> unpauseSignal touching_bottom False"
  "pauseSignal touching_both False" "unpauseSignal touching_both False"
  by (simp_all add: pauseSignal_def unpauseSignal_def touching_bottom_def touching_both_def
      robot_example_def shouldPause_def)

theorem C2_lock_hysteresis_witness:
  "fst (lockTicks quick_controller [touching_bottom, touching_bottom, touching_bottom] False)
     = [False, False, True] \<and>
   \<not> pausedOf (snd (lockTicks quick_controller [touching_bottom, touching_bottom] False)) False \<and>
   pausedOf (snd (lockTicks quick_controller
      [touching_bottom, touching_bottom, touching_bottom] False)) False \<and>
   \<not> pausedOf (snd (lockTicks quick_controller
      ([touching_bottom, touching_bottom, touching_bottom] @
       [touching_both, touching_both, touching_both]) False)) False \<and>
   pausedOf (snd (lockTicks quick_controller
      ([touching_bottom, touching_bottom, touching_bottom] @
       [touching_bottom, touching_bottom, touching_bottom, touching_bottom]) False)) False"
proof -
  have h: "m_dHistorisisSeconds quick_controller * 1000 = real 2"
    "maxCount quick_controller = None \<or> maxCount quick_controller = Some (real 2)"
    "\<not> pausedOf quick_controller False" "counterOf quick_controller False = 0"
    "list_all (\<lambda>s. pauseSignal s False) [touching_bottom, touching_bottom, touching_bottom]"
    "length [touching_bottom, touching_bottom, touching_bottom] = 2 + 1"
    by (simp_all add: quick_controller_def new_DuCTTLearningController_def pausedOf_def
        counterOf_def touching_signals)
  show ?thesis
    using C2_lock_hysteresis[OF h, THEN conjunct2, THEN conjunct1]
    by (simp add: quick_controller_def new_DuCTTLearningController_def pausedOf_def
        isLocked_def Let_def touching_bottom_def touching_both_def robot_example_def
        shouldPause_def)
qed

text \<open>
  The claim as stated fails: with a threshold of 2 ticks and only the bottom group
  touching, the bottom joint is PAUSED after 3 ticks and still PAUSED after 3 more.
\<close>

theorem C2_toggle_back_counterexample:
  "\<not> pausedOf quick_controller False \<and> counterOf quick_controller False = 0 \<and>
   m_dHistorisisSeconds quick_controller * 1000 = 2 \<and>
   pauseSignal touching_bottom False \<and> \<not> unpauseSignal touching_bottom False \<and>
   pausedOf (snd (lockTicks quick_controller (replicate 3 touching_bottom) False)) False \<and>
   pausedOf (snd (lockTicks quick_controller
      (replicate 3 touching_bottom @ replicate 3 touching_bottom) False)) False"
  by (simp add: quick_controller_def new_DuCTTLearningController_def pausedOf_def
      counterOf_def pauseSignal_def unpauseSignal_def isLocked_def Let_def
      touching_bottom_def robot_example_def shouldPause_def numeral_3_eq_3)

section \<open>The per-tick entry point\<close>

lemma sequenceE_error: "sequenceE ms = Inl e \<Longrightarrow> Inl e \<in> set ms"
  by (induction ms) (auto split: sum.splits)

lemma elem_error: "elem xs i = Inl e \<Longrightarrow> e = OutOfRange"
  by (auto simp: elem_def split: if_splits)

lemma elemI_error: "elemI xs i = Inl e \<Longrightarrow> e = OutOfRange"
  by (auto simp: elemI_def dest: elem_error split: if_splits)

lemma cell_error: "cell arr i = Inl e \<Longrightarrow> e \<noteq> InvalidArgument"
  by (auto simp: cell_def bindE_def dest: elemI_error split: sum.splits option.splits)

lemma sineWave_error: "sineWave c idx phase = Inl e \<Longrightarrow> e \<noteq> InvalidArgument"
  by (auto simp: sineWave_def bindE_def dest: cell_error split: sum.splits)

lemma clusterNodes_error: "clusterNodes c dt cluster phase = Inl e \<Longrightarrow> e \<noteq> InvalidArgument"
  unfolding clusterNodes_def
  by (auto simp: bindE_def dest!: sequenceE_error elem_error sineWave_error
      split: sum.splits option.splits)

lemma clusterLoop_error: "clusterLoop c dt cls phase = Inl e \<Longrightarrow> e \<noteq> InvalidArgument"
  by (induction cls arbitrary: phase)
    (auto dest: clusterNodes_error cell_error split: sum.splits)

lemma prismLoop_error: "prismLoop subject ps phase c = Inl e \<Longrightarrow> e \<noteq> InvalidArgument"
proof (induction ps arbitrary: phase c)
  case Nil
  then show ?case by simp
next
  case (Cons p ps)
  then show ?case
    by (auto simp: Let_def bindE_def dest: elem_error cell_error sineWave_error
        split: sum.splits option.splits prod.splits if_splits)
qed

text \<open>
  Claim C9. \<^verbatim>\<open>onStep\<close> raises \<open>InvalidArgument\<close> exactly when \<open>dt \<le> 0\<close>, and then
  before anything else: the controller is as it was (elapsed time not advanced) and no
  call has been made on an actuator or a joint.
\<close>

theorem C9_onStep_invalid_argument:
  "(fst (onStep c subject dt) = Some InvalidArgument \<longleftrightarrow> dt \<le> 0) \<and>
   (dt \<le> 0 \<longrightarrow> onStep c subject dt = (Some InvalidArgument, c, []))"
proof -
  have "fst (onStep c subject dt) \<noteq> Some InvalidArgument" if "0 < dt"
    using that
    by (auto simp: onStep_def Let_def setPreferredMuscleLengths_def setPrismaticLengths_def
        dest: clusterLoop_error prismLoop_error split: sum.splits prod.splits)
  moreover have "onStep c subject dt = (Some InvalidArgument, c, [])" if "dt \<le> 0"
    using that by (simp add: onStep_def)
  ultimately show ?thesis
    by (cases "dt \<le> 0") auto
qed

theorem C9_onStep_invalid_argument_witness:
  "onStep quick_controller touching_bottom 0 = (Some InvalidArgument, quick_controller, []) \<and>
   onStep quick_controller touching_bottom (- 1) = (Some InvalidArgument, quick_controller, []) \<and>
   fst (onStep quick_controller touching_bottom 0.001) = None \<and>
   m_totalTime (fst (snd (onStep quick_controller touching_bottom 0.001))) = 0.001 \<and>
   onStep phase_controller touching_bottom 0.5 =
     (None, phase_controller\<lparr> m_totalTime := 3.5, initPosition := origin, m_bRecordedStart := True \<rparr>,
      [ImpedanceControl 0 0.5 5 0, ImpedanceControl 1 0.5 5 0, ImpedanceControl 2 0.5 5 0,
       ImpedanceControl 3 0.5 5 0, ImpedanceControl 4 0.5 5 1, ImpedanceControl 5 0.5 5 1,
       ImpedanceControl 6 0.5 5 1, ImpedanceControl 7 0.5 5 1,
       PrismSetPreferredLength BottomPrismatic 0, PrismSetPreferredLength TopPrismatic 0,
       PrismMoveMotors BottomPrismatic 0.5, PrismMoveMotors TopPrismatic 0.5])"
  using C9_onStep_invalid_argument[of quick_controller touching_bottom 0]
    C9_onStep_invalid_argument[of quick_controller touching_bottom "- 1"]
    C9_onStep_invalid_argument[of quick_controller touching_bottom "0.001"]
    C9_onStep_invalid_argument[of phase_controller touching_bottom "0.5"]
  by (simp add: onStep_def quick_controller_def phase_controller_def
      new_DuCTTLearningController_def isLocked_def
      Let_def touching_bottom_def robot_example_def shouldPause_def
      setPreferredMuscleLengths_def
      clusterNodes_def setPrismaticLengths_def prismIdx_def elem_def bindE_def sineWave_def
      cell_def elemI_def upt_conv_Cons moveMotors_def)

section \<open>Phase accumulation in the two actuation loops\<close>

















section \<open>Which channel drives a joint\<close>

lemma setup_offsets16:
  "onSetup (new_DuCTTLearningController 5 False [] 1 False origin None) env_example
     (robot_example eight_muscles [True] [False] origin) [offsets16] =
   Inr ((new_DuCTTLearningController 5 False [] 1 False origin None)
          \<lparr> prisms := [Some BottomPrismatic, Some TopPrismatic],
            clusters := [[Some 0, Some 1, Some 2, Some 3], [Some 4, Some 5, Some 6, Some 7]],
            amplitude := [Some 0, Some 0, Some 0, None],
            angularFrequency := [Some 0.3, Some 0.3, Some 0.3, None],
            phaseChange := [Some 0, Some 0, Some 0, None],
            dcOffset := [Some 10, Some 20, Some 30, None],
            m_actions := [[0, 0.3, 0, 10], [0, 0.3, 0, 20], [0, 0.3, 0, 30], [0, 0.3, 0, 40]] \<rparr>,
        map (\<lambda>i. SetControlInput i 5 0.0001) [0, 1, 2, 3, 4, 5, 6, 7] @
        [PrismSetPreferredLength BottomPrismatic 1, PrismMoveMotors BottomPrismatic 0.0001,
         PrismSetPreferredLength TopPrismatic 1, PrismMoveMotors TopPrismatic 0.0001])"
  by (simp add: onSetup_def new_DuCTTLearningController_def env_example_def robot_example_def
     offsets16_def eight_muscles_def bindE_def populateClusters_def upd_def
     initializeSineWaves_def transformActions_def elem_def elemI_def scaleChannel_def
     N_PARAMS_def mins_def maxes_def ranges_def M_PI_def applyActions_def setChannel_def updI_def
     prismIdx_def upt_conv_Cons Let_def replicate_numerals list_update_numerals)

text \<open>
  Claim C1 has joint \<open>j\<close> driven by the decoded channel \<open>numClusters + j\<close>. The source
  indexes with \<^verbatim>\<open>prism + clusters.size()-1\<close>: after \<^verbatim>\<open>onSetup\<close> on a vector that decodes
  to the offsets 10, 20, 30, 40 (amplitude 0), the bottom joint is sent 20, the offset of
  channel 1 (the second cluster's), and the top joint 30, that of channel 2; channel 3 is
  never read.
\<close>

theorem C1_joint_channel_evaluation:
  "(case onSetup (new_DuCTTLearningController 5 False [] 1 False origin None) env_example
           (robot_example eight_muscles [True] [False] origin) [offsets16] of
      Inl e \<Rightarrow> None
    | Inr (c, cmds) \<Rightarrow>
        Some (m_actions c, prismIdx c 0, prismIdx c 1,
              map_sum id snd (setPrismaticLengths c
                 (robot_example eight_muscles [True] [False] origin) 0.001)))
   = Some ([[0, 0.3, 0, 10], [0, 0.3, 0, 20], [0, 0.3, 0, 30], [0, 0.3, 0, 40]], 1, 2,
           Inr [PrismSetPreferredLength BottomPrismatic 20,
                PrismSetPreferredLength TopPrismatic 30])"
  unfolding setup_offsets16
  by (simp add: new_DuCTTLearningController_def prismIdx_def
      setPrismaticLengths_def Let_def elem_def bindE_def sineWave_def cell_def elemI_def
      upt_conv_Cons)

text \<open>
  The same episode through \<^verbatim>\<open>onStep\<close>: the first tick past the warm-up records the
  start and sends each cluster its own offset, the bottom joint the second cluster's, and
  the top joint that of channel 2.
\<close>

lemma first_active_tick:
  "(case onSetup (new_DuCTTLearningController 5 False [] 1 False origin None) env_example
           (robot_example eight_muscles [True] [False] origin) [offsets16] of
      Inl e \<Rightarrow> None
    | Inr (c, cmds) \<Rightarrow>
        (case onStep c (robot_example eight_muscles [True] [False] origin) 3 of
           (err, c', cmds') \<Rightarrow> Some (err, m_totalTime c', m_bRecordedStart c', cmds')))
   = Some (None, 3, True,
      [ImpedanceControl 0 3 5 10, ImpedanceControl 1 3 5 10, ImpedanceControl 2 3 5 10,
       ImpedanceControl 3 3 5 10, ImpedanceControl 4 3 5 20, ImpedanceControl 5 3 5 20,
       ImpedanceControl 6 3 5 20, ImpedanceControl 7 3 5 20,
       PrismSetPreferredLength BottomPrismatic 20, PrismSetPreferredLength TopPrismatic 30,
       MuscleMoveMotors 0 3, MuscleMoveMotors 1 3, MuscleMoveMotors 2 3, MuscleMoveMotors 3 3,
       MuscleMoveMotors 4 3, MuscleMoveMotors 5 3, MuscleMoveMotors 6 3, MuscleMoveMotors 7 3,
       PrismMoveMotors BottomPrismatic 3, PrismMoveMotors TopPrismatic 3])"
  unfolding setup_offsets16
  by (simp add: new_DuCTTLearningController_def onStep_def Let_def setPreferredMuscleLengths_def
      clusterNodes_def setPrismaticLengths_def prismIdx_def elem_def bindE_def sineWave_def
      cell_def elemI_def upt_conv_Cons moveMotors_def robot_example_def eight_muscles_def
      replicate_numerals)

section \<open>The manual parameter line\<close>

lemma grab19: "grabLine (nat 1) (open_stream line19) [] = line19"
  by (simp add: line19_def open_stream_def getline_def)

lemma split19:
  "splitLine (\<lambda>s. 0) 18 (open_stream line19) [] 0 (replicate 18 1) = Inl OutOfRange"
  by (simp add: line19_def open_stream_def getline_def updI_def upd_def)

text \<open>
  Claim C10 has every write of \<^verbatim>\<open>readManualParams\<close> below \<open>nActions * 4 + 2\<close>. The
  loop runs while \<^verbatim>\<open>iCell <= numParams\<close>: on a line of 19 fields the 19th is written to
  \<^verbatim>\<open>result[18]\<close>, one past the end of the 18-element vector.
\<close>

theorem C10_manual_params_overflow:
  "readManualParams (new_DuCTTLearningController 5 True ''params.csv'' 1 False origin None)
     (env_manual line19) 1 ''params.csv'' = Inl OutOfRange"
  using grab19 split19
  by (simp add: readManualParams_def new_DuCTTLearningController_def env_manual_def Let_def
      N_PARAMS_def bindE_def del: splitLine.simps grabLine.simps)

text \<open>When no write leaves the vector, the result has \<open>nActions * 4 + 2\<close> elements.\<close>

lemma tweak_length: "length (tweak rnd i rs) = length rs"
  by (induction rs arbitrary: i) (simp_all add: Let_def)

lemma splitLine_length:
  "splitLine atof_fn numParams lineStream cellStr iCell result = Inr result' \<Longrightarrow>
   length result' = length result"
proof (induction atof_fn numParams lineStream cellStr iCell result rule: splitLine.induct)
  case (1 atof_fn numParams lineStream cellStr iCell result)
  obtain ls' cs' where g: "getline lineStream cellStr (CHR '','') = (ls', cs')"
    by (cases "getline lineStream cellStr (CHR '','')")
  show ?case
  proof (cases "\<not> failbit ls' \<and> iCell \<le> numParams")
    case True
    then obtain r1 where u: "updI result iCell (atof_fn cs') = Inr r1"
      and rec: "splitLine atof_fn numParams ls' cs' (iCell + 1) r1 = Inr result'"
      using "1.prems" g
      by (subst (asm) splitLine.simps) (auto split: sum.splits)
    have "length r1 = length result"
      using u by (auto simp: updI_def upd_def split: if_splits)
    moreover have "length result' = length r1"
      using "1.IH"[OF g[symmetric] _ u rec] True by simp
    ultimately show ?thesis by simp
  next
    case False
    then show ?thesis
      using "1.prems" g by (subst (asm) splitLine.simps) auto
  qed
qed

lemma readManualParams_length:
  "readManualParams c env lineNumber filename = Inr result \<Longrightarrow>
   length result = nActions c * N_PARAMS + 2"
proof -
  assume r: "readManualParams c env lineNumber filename = Inr result"
  have n: "nat (int (nActions c * N_PARAMS + 2)) = nActions c * N_PARAMS + 2"
    by (rule nat_int)
  show ?thesis
    using r unfolding readManualParams_def Let_def n
    by (auto simp: bindE_def tweak_length dest!: splitLine_length
        split: if_splits sum.splits simp del: splitLine.simps of_nat_add of_nat_mult)
qed

section \<open>Teardown\<close>

lemma setup_flags18:
  "onSetup (new_DuCTTLearningController 5 False [] 1 False origin None) env_example
     (robot_example eight_muscles [True] [False] origin) [flags18] =
   Inr ((new_DuCTTLearningController 5 False [] 1 False origin None)
          \<lparr> m_bIgnoreTouchSensors := False, m_dHistorisisSeconds := 0,
            prisms := [Some BottomPrismatic, Some TopPrismatic],
            clusters := [[Some 0, Some 1, Some 2, Some 3], [Some 4, Some 5, Some 6, Some 7]],
            amplitude := [Some 0, Some 0, Some 0, None],
            angularFrequency := [Some 0.3, Some 0.3, Some 0.3, None],
            phaseChange := [Some 0, Some 0, Some 0, None],
            dcOffset := [Some 10, Some 20, Some 30, None],
            m_actions := [[0, 0.3, 0, 10], [0, 0.3, 0, 20], [0, 0.3, 0, 30], [0, 0.3, 0, 40]] \<rparr>,
        map (\<lambda>i. SetControlInput i 5 0.0001) [0, 1, 2, 3, 4, 5, 6, 7] @
        [PrismSetPreferredLength BottomPrismatic 1, PrismMoveMotors BottomPrismatic 0.0001,
         PrismSetPreferredLength TopPrismatic 1, PrismMoveMotors TopPrismatic 0.0001])"
  by (simp add: onSetup_def new_DuCTTLearningController_def env_example_def robot_example_def
     flags18_def offsets16_def eight_muscles_def bindE_def populateClusters_def upd_def
     initializeSineWaves_def transformActions_def elem_def elemI_def scaleChannel_def
     N_PARAMS_def mins_def maxes_def ranges_def M_PI_def applyActions_def setChannel_def updI_def
     prismIdx_def upt_conv_Cons Let_def replicate_numerals list_update_numerals)

text \<open>
  Claim C3 has every per-episode variable, the joints' paused flags and debounce counters
  among them, back at its initial value after \<^verbatim>\<open>onTeardown\<close>. Two episodes of one tick
  each, with the bottom touch group touching: with hysteresis 0 the bottom joint is paused
  by the tick and still paused after teardown; with the default hysteresis the bottom
  counter is 1 after the tick and still 1 after teardown. Elapsed time and the two other
  flags are reset.
\<close>

theorem C3_teardown_evaluation:
  "(case onSetup (new_DuCTTLearningController 5 False [] 1 False origin None) env_example
           (robot_example eight_muscles [True] [False] origin) [flags18] of
      Inl e \<Rightarrow> None
    | Inr (c1, cmds1) \<Rightarrow>
        (case onStep c1 (robot_example eight_muscles [True] [False] origin) 0.001 of
           (err, c2, cmds2) \<Rightarrow>
             (case onTeardown c2 (robot_example eight_muscles [True] [False] origin) of
                Inl e \<Rightarrow> None
              | Inr (c3, cmds3) \<Rightarrow>
                  Some (err, m_totalTime c3, m_bRecordedStart c3, m_bBadRun c3,
                        m_bBottomPaused c3, bottomCounter c3))))
     = Some (None, 0, False, False, True, 0) \<and>
   (case onSetup (new_DuCTTLearningController 5 False [] 1 False origin None) env_example
           (robot_example eight_muscles [True] [False] origin) [offsets16] of
      Inl e \<Rightarrow> None
    | Inr (c1, cmds1) \<Rightarrow>
        (case onStep c1 (robot_example eight_muscles [True] [False] origin) 0.001 of
           (err, c2, cmds2) \<Rightarrow>
             (case onTeardown c2 (robot_example eight_muscles [True] [False] origin) of
                Inl e \<Rightarrow> None
              | Inr (c3, cmds3) \<Rightarrow>
                  Some (err, m_totalTime c3, m_bRecordedStart c3, m_bBadRun c3,
                        m_bBottomPaused c3, bottomCounter c3))))
     = Some (None, 0, False, False, False, 1)"
  unfolding setup_flags18 setup_offsets16
  by (simp add: new_DuCTTLearningController_def onStep_def isLocked_def Let_def
      robot_example_def shouldPause_def onTeardown_def bindE_def totalEnergySpent_def
      eight_muscles_def replicate_numerals)

text \<open>In general \<^verbatim>\<open>onTeardown\<close> assigns three members and leaves the lock state as it is.\<close>

lemma onTeardown_lock_state:
  "onTeardown c subject = Inr (c', cmds) \<Longrightarrow>
   m_bBottomPaused c' = m_bBottomPaused c \<and> m_bTopPaused c' = m_bTopPaused c \<and>
   bottomCounter c' = bottomCounter c \<and> topCounter c' = topCounter c \<and>
   m_totalTime c' = 0 \<and> \<not> m_bRecordedStart c' \<and> \<not> m_bBadRun c'"
  by (auto simp: onTeardown_def bindE_def Let_def split: sum.splits)

end
